theory Spec2Isabelle
  imports Complex_Main
begin

section \<open>useFlyToTarget: a shallow embedding\<close>

text \<open>
  The hook \<open>useFlyToTarget\<close> exists twice in the repository with the same body: as the
  hook module (centre-to-centre target, options \<open>duration\<close>/\<open>ease\<close>) and inlined in
  \<open>Sandbox-demo.tsx\<close> (target chosen by \<open>targetPosition\<close> and \<open>targetPositionOffset\<close>,
  options \<open>motionDuration\<close>/\<open>motionEase\<close>). The embedding follows \<open>Sandbox-demo.tsx\<close>,
  lines 440-685; the hook module is the instance \<open>targetPosition = center\<close> with a zero
  offset (lemma \<open>targetXY_center\<close>).

  Conventions of the embedding.
  \<^item> A finite double is the real number it denotes, and \<open>+0\<close> and \<open>-0\<close> are the one
    value 0. The type \<open>jsnum\<close> adds \<open>NaN\<close> and the two infinities.
  \<^item> The control point (lines 571-586) is computed in binary64 arithmetic: every
    operation rounds to nearest, ties to even, overflows to an infinity and underflows
    to a subnormal or to zero (\<open>fl\<close>). The other sums and products of the program (the
    target point of lines 501-554, the blurs of lines 617-618, the offset of line 649)
    and GSAP's start times are kept as the real expressions they are written as; their
    rounding is not modelled.
  \<^item> In the option object, a key that the hook itself tests, calls, dereferences or
    computes the path with (\<open>swoopAmount\<close>, \<open>targetPosition\<close>, \<open>targetPositionOffset\<close>,
    \<open>scale\<close>, \<open>enableShadow\<close>, \<open>onComplete\<close>, \<open>onStart\<close>) is absent, present with the
    value \<open>undefined\<close>, or present with a value. An explicit \<open>undefined\<close> for one of the
    other keys reaches GSAP as an undefined or \<open>NaN\<close> duration, delay, scale, blur or
    position, and what GSAP makes of that is not part of this program: those keys are
    absent or present with a value.
  \<^item> An exception is a value: a call returns \<open>Inl\<close> of the error or \<open>Inr\<close> of its result.
  \<^item> A callback is an opaque identity; calling it is an event of the trace.
  \<^item> GSAP is an external library. A timeline is modelled by what the program puts on
    it: its children with their start times, resolved as GSAP documents the position
    parameter, and two flags for its end of life.
\<close>

subsection \<open>JavaScript numbers\<close>

datatype jsnum = Num real | NaN | PosInf | NegInf

text \<open>Rounding a real to the nearest integer, ties to even.\<close>

definition rne :: "real \<Rightarrow> int" where
  "rne r =
     (let f = \<lfloor>r\<rfloor>
      in if r - of_int f < 1 / 2 then f
         else if 1 / 2 < r - of_int f then f + 1
         else if even f then f else f + 1)"

text \<open>
  The binary64 exponent of a nonzero real, not below the exponent of the subnormals, and
  the spacing of the doubles at that exponent (53 significant bits).
\<close>

definition expo :: "real \<Rightarrow> int" where
  "expo x = max \<lfloor>log 2 \<bar>x\<bar>\<rfloor> (- 1022)"

definition ulp :: "real \<Rightarrow> real" where
  "ulp x = 2 powi (expo x - 52)"

text \<open>
  The double that an operation returns when its exact result is \<open>x\<close>: \<open>x\<close> rounded to
  nearest, ties to even; an infinity when the rounded value reaches \<open>2^1024\<close>.
\<close>

definition fl :: "real \<Rightarrow> jsnum" where
  "fl x =
     (if x = 0 then Num 0
      else (let y = ulp x * of_int (rne (x / ulp x))
            in if 2 ^ 1024 \<le> \<bar>y\<bar> then (if 0 < x then PosInf else NegInf) else Num y))"

text \<open>Unary minus, \<open>+\<close>, \<open>-\<close>, \<open>*\<close>, \<open>/\<close> and \<open>Math.sqrt\<close> on doubles.\<close>

fun js_neg :: "jsnum \<Rightarrow> jsnum" where
  "js_neg (Num a) = Num (- a)"
| "js_neg NaN = NaN"
| "js_neg PosInf = NegInf"
| "js_neg NegInf = PosInf"

fun js_add :: "jsnum \<Rightarrow> jsnum \<Rightarrow> jsnum" where
  "js_add (Num a) (Num b) = fl (a + b)"
| "js_add NaN b = NaN"
| "js_add (Num a) NaN = NaN"
| "js_add (Num a) PosInf = PosInf"
| "js_add (Num a) NegInf = NegInf"
| "js_add PosInf (Num b) = PosInf"
| "js_add PosInf NaN = NaN"
| "js_add PosInf PosInf = PosInf"
| "js_add PosInf NegInf = NaN"
| "js_add NegInf (Num b) = NegInf"
| "js_add NegInf NaN = NaN"
| "js_add NegInf PosInf = NaN"
| "js_add NegInf NegInf = NegInf"

definition js_sub :: "jsnum \<Rightarrow> jsnum \<Rightarrow> jsnum" where
  "js_sub a b = js_add a (js_neg b)"

fun js_mul :: "jsnum \<Rightarrow> jsnum \<Rightarrow> jsnum" where
  "js_mul (Num a) (Num b) = fl (a * b)"
| "js_mul NaN b = NaN"
| "js_mul (Num a) NaN = NaN"
| "js_mul (Num a) PosInf = (if a = 0 then NaN else if 0 < a then PosInf else NegInf)"
| "js_mul (Num a) NegInf = (if a = 0 then NaN else if 0 < a then NegInf else PosInf)"
| "js_mul PosInf (Num b) = (if b = 0 then NaN else if 0 < b then PosInf else NegInf)"
| "js_mul PosInf NaN = NaN"
| "js_mul PosInf PosInf = PosInf"
| "js_mul PosInf NegInf = NegInf"
| "js_mul NegInf (Num b) = (if b = 0 then NaN else if 0 < b then NegInf else PosInf)"
| "js_mul NegInf NaN = NaN"
| "js_mul NegInf PosInf = NegInf"
| "js_mul NegInf NegInf = PosInf"

text \<open>
  A zero divisor counts as \<open>+0\<close>: the only divisor of the program that can be zero is a
  \<open>Math.sqrt\<close>, which never returns \<open>-0\<close> for a sum of squares.
\<close>

fun js_div :: "jsnum \<Rightarrow> jsnum \<Rightarrow> jsnum" where
  "js_div (Num a) (Num b) =
     (if b \<noteq> 0 then fl (a / b)
      else if a = 0 then NaN
      else if 0 < a then PosInf else NegInf)"
| "js_div NaN b = NaN"
| "js_div (Num a) NaN = NaN"
| "js_div (Num a) PosInf = Num 0"
| "js_div (Num a) NegInf = Num 0"
| "js_div PosInf (Num b) = (if 0 \<le> b then PosInf else NegInf)"
| "js_div PosInf NaN = NaN"
| "js_div PosInf PosInf = NaN"
| "js_div PosInf NegInf = NaN"
| "js_div NegInf (Num b) = (if 0 \<le> b then NegInf else PosInf)"
| "js_div NegInf NaN = NaN"
| "js_div NegInf PosInf = NaN"
| "js_div NegInf NegInf = NaN"

fun js_sqrt :: "jsnum \<Rightarrow> jsnum" where
  "js_sqrt (Num a) = (if a < 0 then NaN else fl (sqrt a))"
| "js_sqrt NaN = NaN"
| "js_sqrt PosInf = PosInf"
| "js_sqrt NegInf = NaN"

text \<open>\<open>ToNumber\<close> of a number that may be \<open>undefined\<close>.\<close>

definition toNumber :: "real option \<Rightarrow> jsnum" where
  "toNumber v = (case v of None \<Rightarrow> NaN | Some a \<Rightarrow> Num a)"

subsection \<open>Data\<close>

text \<open>\<open>DOMRect\<close>, as far as the program reads it.\<close>

record Rect =
  rect_left :: real
  rect_top :: real
  rect_width :: real
  rect_height :: real

text \<open>
  An \<open>HTMLElement\<close>, as far as the program reads it: \<open>getBoundingClientRect()\<close> and
  \<open>gsap.getProperty(element, 'x')\<close>, \<open>gsap.getProperty(element, 'y')\<close>.
\<close>

record Element =
  boundingClientRect :: Rect
  prop_x :: real
  prop_y :: real

datatype PositionType =
  topLeft | topCenter | topRight
  | leftCenter | center | rightCenter
  | bottomLeft | bottomCenter | bottomRight

datatype callback = NoOp | Callback nat

datatype error = TypeError

text \<open>A key of an object literal: not written, written with \<open>undefined\<close>, or written with a value.\<close>

datatype 'a key = Absent | Undefined | Present 'a

text \<open>
  \<open>FlyToTargetConfig\<close>: every key optional. For a key of type \<open>option\<close>, \<open>None\<close> is the
  absent key.
\<close>

record FlyToTargetConfig =
  opt_motionDuration :: "real option"
  opt_motionEase :: "string option"
  opt_swoopAmount :: "real key"
  opt_targetPosition :: "PositionType key"
  opt_targetPositionOffset :: "(real \<times> real) key"
  opt_scale :: "bool key"
  opt_grabScale :: "real option"
  opt_scaleStartDelay :: "real option"
  opt_scaleUpDuration :: "real option"
  opt_scaleUpEase :: "string option"
  opt_scalePeak :: "real option"
  opt_scalePause :: "real option"
  opt_scaleDownDuration :: "real option"
  opt_scaleDownEase :: "string option"
  opt_scaleTarget :: "real option"
  opt_enableShadow :: "bool key"
  opt_baseShadowBlur :: "real option"
  opt_onComplete :: "callback key"
  opt_onStart :: "callback key"

text \<open>
  The merged \<open>config\<close>: every key present. For a key of type \<open>option\<close>, \<open>None\<close> is the
  value \<open>undefined\<close>. \<open>scale\<close> and \<open>enableShadow\<close> are only ever tested by \<open>if\<close>, and are
  kept as the outcome of that test.
\<close>

record Config =
  motionDuration :: real
  motionEase :: string
  swoopAmount :: "real option"
  targetPosition :: "PositionType option"
  targetPositionOffset :: "(real \<times> real) option"
  scale :: bool
  grabScale :: real
  scaleStartDelay :: real
  scaleUpDuration :: real
  scaleUpEase :: string
  scalePeak :: real
  scalePause :: real
  scaleDownDuration :: real
  scaleDownEase :: string
  scaleTarget :: real
  enableShadow :: bool
  baseShadowBlur :: real
  onComplete :: "callback option"
  onStart :: "callback option"

definition DEFAULT_CONFIG :: Config where
  "DEFAULT_CONFIG =
     \<lparr> motionDuration = 45 / 100,
       motionEase = ''power3.out'',
       swoopAmount = Some (- 100),
       targetPosition = Some center,
       targetPositionOffset = Some (0, 0),
       scale = True,
       grabScale = 12 / 10,
       scaleStartDelay = 0,
       scaleUpDuration = 2 / 10,
       scaleUpEase = ''power3.in'',
       scalePeak = 25 / 10,
       scalePause = 15 / 100,
       scaleDownDuration = 1 / 10,
       scaleDownEase = ''none'',
       scaleTarget = 1,
       enableShadow = True,
       baseShadowBlur = 4,
       onComplete = Some NoOp,
       onStart = Some NoOp \<rparr>"

text \<open>
  One key of \<open>{ ...DEFAULT_CONFIG, ...userConfig }\<close> (line 490): the caller's value where
  the key is written, be it \<open>undefined\<close>, and the default otherwise.
\<close>

definition spread :: "'a \<Rightarrow> 'a option \<Rightarrow> 'a" where
  "spread d u = (case u of None \<Rightarrow> d | Some v \<Rightarrow> v)"

definition spread_key :: "'a option \<Rightarrow> 'a key \<Rightarrow> 'a option" where
  "spread_key d u = (case u of Absent \<Rightarrow> d | Undefined \<Rightarrow> None | Present v \<Rightarrow> Some v)"

text \<open>\<open>if (v)\<close> for a boolean that may be \<open>undefined\<close>.\<close>

definition truthy :: "bool option \<Rightarrow> bool" where
  "truthy v = (case v of None \<Rightarrow> False | Some b \<Rightarrow> b)"

definition mergeConfig :: "Config \<Rightarrow> FlyToTargetConfig \<Rightarrow> Config" where
  "mergeConfig d u =
     \<lparr> motionDuration = spread (motionDuration d) (opt_motionDuration u),
       motionEase = spread (motionEase d) (opt_motionEase u),
       swoopAmount = spread_key (swoopAmount d) (opt_swoopAmount u),
       targetPosition = spread_key (targetPosition d) (opt_targetPosition u),
       targetPositionOffset = spread_key (targetPositionOffset d) (opt_targetPositionOffset u),
       scale = truthy (spread_key (Some (scale d)) (opt_scale u)),
       grabScale = spread (grabScale d) (opt_grabScale u),
       scaleStartDelay = spread (scaleStartDelay d) (opt_scaleStartDelay u),
       scaleUpDuration = spread (scaleUpDuration d) (opt_scaleUpDuration u),
       scaleUpEase = spread (scaleUpEase d) (opt_scaleUpEase u),
       scalePeak = spread (scalePeak d) (opt_scalePeak u),
       scalePause = spread (scalePause d) (opt_scalePause u),
       scaleDownDuration = spread (scaleDownDuration d) (opt_scaleDownDuration u),
       scaleDownEase = spread (scaleDownEase d) (opt_scaleDownEase u),
       scaleTarget = spread (scaleTarget d) (opt_scaleTarget u),
       enableShadow = truthy (spread_key (Some (enableShadow d)) (opt_enableShadow u)),
       baseShadowBlur = spread (baseShadowBlur d) (opt_baseShadowBlur u),
       onComplete = spread_key (onComplete d) (opt_onComplete u),
       onStart = spread_key (onStart d) (opt_onStart u) \<rparr>"

text \<open>The empty option object \<open>{}\<close>, the default of the parameter \<open>userConfig\<close>.\<close>

definition emptyConfig :: FlyToTargetConfig where
  "emptyConfig =
     \<lparr> opt_motionDuration = None, opt_motionEase = None, opt_swoopAmount = Absent,
       opt_targetPosition = Absent, opt_targetPositionOffset = Absent, opt_scale = Absent,
       opt_grabScale = None, opt_scaleStartDelay = None, opt_scaleUpDuration = None,
       opt_scaleUpEase = None, opt_scalePeak = None, opt_scalePause = None,
       opt_scaleDownDuration = None, opt_scaleDownEase = None, opt_scaleTarget = None,
       opt_enableShadow = Absent, opt_baseShadowBlur = None, opt_onComplete = Absent,
       opt_onStart = Absent \<rparr>"

subsection \<open>What the program hands to GSAP\<close>

text \<open>
  A \<open>boxShadow\<close> value \<open>`${x}px ${y}px ${blur}px rgba(0,0,0,${alpha})`\<close>, kept as its four
  numbers instead of the formatted string.
\<close>

datatype BoxShadow = BoxShadow (offsetX: real) (offsetY: real) (blur: real) (alpha: real)

text \<open>
  The motion part of \<open>motionConfig\<close>: either \<open>motionPath: { path, curviness, resolution }\<close>
  or the two keys \<open>x\<close> and \<open>y\<close>.
\<close>

datatype Motion =
  MotionPath (path: "(jsnum \<times> jsnum) list") (curviness: real) (resolution: real)
  | MoveTo real real

text \<open>\<open>gsap.TweenVars\<close>, with the keys the program sets. An absent \<open>delay\<close> is 0.\<close>

record TweenVars =
  tv_duration :: real
  tv_ease :: string
  tv_delay :: real
  tv_motion :: "Motion option"
  tv_scale :: "real option"
  tv_boxShadow :: "BoxShadow option"

text \<open>
  A child of a timeline: its variables, the \<open>from\<close> variables of \<open>fromTo\<close> (only \<open>scale\<close>
  occurs) and its start time on the timeline, in seconds from the timeline's start.
\<close>

record Tween =
  tw_vars :: TweenVars
  tw_fromScale :: "real option"
  tw_start :: real

record Timeline =
  tl_onComplete :: "callback option"
  tl_children :: "Tween list"
  tl_completed :: bool
  tl_killed :: bool

text \<open>The position parameter: a number, or the string \<open>`>${n}`\<close>.\<close>

datatype Position = At real | AfterRecent real

definition endTime :: "Tween \<Rightarrow> real" where
  "endTime tw = tw_start tw + tv_duration (tw_vars tw)"

text \<open>
  GSAP's resolution of the position parameter, as its documentation gives it: a number
  is an absolute time on the timeline; \<open>">n"\<close> is \<open>n\<close> seconds after the end of the most
  recently added child (after 0 on an empty timeline). GSAP's rounding of start times to
  a fixed precision is not modelled.
\<close>

definition parsePosition :: "Timeline \<Rightarrow> Position \<Rightarrow> real" where
  "parsePosition tline p =
     (case p of
        At t \<Rightarrow> t
      | AfterRecent n \<Rightarrow>
          (case tl_children tline of
             [] \<Rightarrow> 0
           | _ # _ \<Rightarrow> endTime (last (tl_children tline))) + n)"

text \<open>
  \<open>tl.to(target, vars, position)\<close> and \<open>tl.fromTo(target, fromVars, vars, position)\<close>: the
  child starts at the resolved position plus its own \<open>delay\<close>.
\<close>

definition tl_add :: "Timeline \<Rightarrow> real option \<Rightarrow> TweenVars \<Rightarrow> Position \<Rightarrow> Timeline" where
  "tl_add tline fromScale vars p =
     tline\<lparr> tl_children := tl_children tline @
           [\<lparr> tw_vars = vars, tw_fromScale = fromScale,
              tw_start = parsePosition tline p + tv_delay vars \<rparr>] \<rparr>"

text \<open>\<open>gsap.timeline({ onComplete })\<close>; \<open>None\<close> is an \<open>onComplete\<close> that is \<open>undefined\<close>.\<close>

definition gsap_timeline :: "callback option \<Rightarrow> Timeline" where
  "gsap_timeline cb =
     \<lparr> tl_onComplete = cb, tl_children = [], tl_completed = False, tl_killed = False \<rparr>"

subsection \<open>Effects\<close>

datatype event =
  ConsoleWarn string
  | Invoke callback
  | GsapSetBoxShadow BoxShadow
  | GsapSetScale real
  | TimelineKill nat

text \<open>
  The state of one hook instance and of the engine it talks to: the array behind
  \<open>activeAnimationsRef.current\<close>, the timelines that exist (a timeline is its index in
  creation order), and the trace of effects.
\<close>

record hook_state =
  activeAnimations :: "nat list"
  timelines :: "nat \<rightharpoonup> Timeline"
  next_id :: nat
  events :: "event list"

definition init_state :: hook_state where
  "init_state = \<lparr> activeAnimations = [], timelines = Map.empty, next_id = 0, events = [] \<rparr>"

definition emit :: "event list \<Rightarrow> hook_state \<Rightarrow> hook_state" where
  "emit es s = s\<lparr> events := events s @ es \<rparr>"

subsection \<open>The geometry of \<open>flyToTarget\<close>\<close>

text \<open>
  \<open>getTargetPoint\<close>, lines 501-548. A \<open>position\<close> that is \<open>undefined\<close> takes the \<open>default\<close>
  of the \<open>switch\<close>, which is the case \<open>center\<close>. Lines 545-546 read
  \<open>config.targetPositionOffset.x\<close> and \<open>.y\<close>, which throws a \<open>TypeError\<close> when the offset is
  \<open>undefined\<close>.
\<close>

definition getTargetPoint :: "Config \<Rightarrow> Rect \<Rightarrow> PositionType option \<Rightarrow> error + real \<times> real" where
  "getTargetPoint config r position =
     (let xLeft = rect_left r;
          xCenter = rect_left r + rect_width r / 2;
          xRight = rect_left r + rect_width r;
          yTop = rect_top r;
          yCenter = rect_top r + rect_height r / 2;
          yBottom = rect_top r + rect_height r;
          pos = (case position of
                   Some topLeft \<Rightarrow> (xLeft, yTop)
                 | Some topCenter \<Rightarrow> (xCenter, yTop)
                 | Some topRight \<Rightarrow> (xRight, yTop)
                 | Some leftCenter \<Rightarrow> (xLeft, yCenter)
                 | Some rightCenter \<Rightarrow> (xRight, yCenter)
                 | Some bottomLeft \<Rightarrow> (xLeft, yBottom)
                 | Some bottomCenter \<Rightarrow> (xCenter, yBottom)
                 | Some bottomRight \<Rightarrow> (xRight, yBottom)
                 | Some center \<Rightarrow> (xCenter, yCenter)
                 | None \<Rightarrow> (xCenter, yCenter))
      in case targetPositionOffset config of
           None \<Rightarrow> Inl TypeError
         | Some offset \<Rightarrow> Inr (fst pos + fst offset, snd pos + snd offset))"

text \<open>\<open>sourceCenter\<close>, line 552.\<close>

definition sourceCenter :: "Rect \<Rightarrow> real \<times> real" where
  "sourceCenter r = (rect_left r + rect_width r / 2, rect_top r + rect_height r / 2)"

text \<open>\<open>targetX\<close> and \<open>targetY\<close>, lines 551-554.\<close>

definition targetXY :: "Config \<Rightarrow> Element \<Rightarrow> Element \<Rightarrow> error + real \<times> real" where
  "targetXY config src tgt =
     (case getTargetPoint config (boundingClientRect tgt) (targetPosition config) of
        Inl e \<Rightarrow> Inl e
      | Inr targetPoint \<Rightarrow>
          (let sc = sourceCenter (boundingClientRect src)
           in Inr (prop_x src + (fst targetPoint - fst sc),
                   prop_y src + (snd targetPoint - snd sc))))"

text \<open>
  The hook module's \<open>targetX\<close> and \<open>targetY\<close> (centre to centre), its lines 95-96.
\<close>

definition targetXY_centerToCenter :: "Element \<Rightarrow> Element \<Rightarrow> real \<times> real" where
  "targetXY_centerToCenter src tgt =
     (let sourceRect = boundingClientRect src; targetRect = boundingClientRect tgt
      in (prop_x src + (rect_left targetRect + rect_width targetRect / 2
                        - rect_left sourceRect - rect_width sourceRect / 2),
          prop_y src + (rect_top targetRect + rect_height targetRect / 2
                        - rect_top sourceRect - rect_height sourceRect / 2)))"

text \<open>
  The control point, lines 571-586 (the body of \<open>if (config.swoopAmount !== 0)\<close> up to
  \<open>controlY\<close>), in binary64 arithmetic. The source's \<open>length\<close> is \<open>len\<close> here; there is no
  test of it before the two divisions. \<open>swoop\<close> is \<open>config.swoopAmount\<close> as a number.
\<close>

definition controlPoint :: "real \<times> real \<Rightarrow> real \<times> real \<Rightarrow> jsnum \<Rightarrow> jsnum \<times> jsnum" where
  "controlPoint current target swoop =
     (let currentX = Num (fst current); currentY = Num (snd current);
          targetX = Num (fst target); targetY = Num (snd target);
          midX = js_div (js_add currentX targetX) (Num 2);
          midY = js_div (js_add currentY targetY) (Num 2);
          dx = js_sub targetX currentX;
          dy = js_sub targetY currentY;
          perpX = js_neg dy;
          perpY = dx;
          len = js_sqrt (js_add (js_mul perpX perpX) (js_mul perpY perpY));
          normalizedPerpX = js_div perpX len;
          normalizedPerpY = js_div perpY len;
          controlX = js_add midX (js_mul normalizedPerpX swoop);
          controlY = js_add midY (js_mul normalizedPerpY swoop)
      in (controlX, controlY))"

text \<open>
  \<open>motionConfig\<close>, lines 565-600. \<open>config.swoopAmount !== 0\<close> holds for every value but
  the number 0, so also for \<open>undefined\<close>.
\<close>

definition motionConfig :: "Config \<Rightarrow> real \<times> real \<Rightarrow> real \<times> real \<Rightarrow> TweenVars" where
  "motionConfig config current target =
     \<lparr> tv_duration = motionDuration config,
       tv_ease = motionEase config,
       tv_delay = 0,
       tv_motion =
         Some (if swoopAmount config \<noteq> Some 0
               then MotionPath
                      [(Num (fst current), Num (snd current)),
                       controlPoint current target (toNumber (swoopAmount config)),
                       (Num (fst target), Num (snd target))] 2 6
               else MoveTo (fst target) (snd target)),
       tv_scale = None,
       tv_boxShadow = None \<rparr>"

subsection \<open>The timeline of \<open>flyToTarget\<close>\<close>

text \<open>\<open>scaleConfig\<close>, lines 607-624, without the \<open>gsap.set\<close> of lines 619-621.\<close>

definition scaleConfig :: "Config \<Rightarrow> TweenVars" where
  "scaleConfig config =
     \<lparr> tv_duration = scaleUpDuration config,
       tv_ease = scaleUpEase config,
       tv_delay = scaleStartDelay config,
       tv_motion = None,
       tv_scale = Some (scalePeak config),
       tv_boxShadow =
         (if enableShadow config
          then (let maxBlur = baseShadowBlur config * scalePeak config * (5 / 10)
                in Some (BoxShadow 0 2 maxBlur (6 / 10)))
          else None) \<rparr>"

text \<open>\<open>scaleDownConfig\<close>, lines 635-644.\<close>

definition scaleDownConfig :: "Config \<Rightarrow> TweenVars" where
  "scaleDownConfig config =
     \<lparr> tv_duration = scaleDownDuration config,
       tv_ease = scaleDownEase config,
       tv_delay = scalePause config,
       tv_motion = None,
       tv_scale = Some (scaleTarget config),
       tv_boxShadow = (if enableShadow config then Some (BoxShadow 0 0 0 0) else None) \<rparr>"

text \<open>
  Lines 560-654: the timeline that \<open>flyToTarget\<close> builds, and the immediate \<open>gsap.set\<close>
  calls it makes on the way, in their order.
\<close>

definition buildTimeline :: "Config \<Rightarrow> real \<times> real \<Rightarrow> real \<times> real \<Rightarrow> Timeline \<times> event list" where
  "buildTimeline config current target =
     (let tl0 = gsap_timeline (onComplete config);
          tl1 = tl_add tl0 None (motionConfig config current target) (At 0)
      in if scale config
         then (let sets = (if enableShadow config
                           then (let startBlur = baseShadowBlur config * grabScale config
                                 in [GsapSetBoxShadow (BoxShadow 0 2 startBlur (3 / 10))])
                           else []);
                   tl2 = tl_add tl1 (Some (grabScale config)) (scaleConfig config) (At 0);
                   tl3 = tl_add tl2 None (scaleDownConfig config)
                           (AfterRecent (scaleStartDelay config + scaleUpDuration config))
               in (tl3, sets))
         else (tl1, [GsapSetScale (grabScale config)]))"

text \<open>
  \<open>flyToTarget\<close>, lines 480-660. The result is \<open>Inr\<close> of the returned timeline (\<open>None\<close>
  for \<open>null\<close>) or \<open>Inl\<close> of the exception thrown, and the state after the call. The two
  places that can throw are line 551 (through line 545) and line 557, \<open>config.onStart()\<close>
  with an \<open>onStart\<close> that is \<open>undefined\<close>; both come before the first effect.
\<close>

definition flyToTarget ::
  "hook_state \<Rightarrow> Element option \<Rightarrow> Element option \<Rightarrow> FlyToTargetConfig
     \<Rightarrow> (error + nat option) \<times> hook_state" where
  "flyToTarget s sourceElement targetElement userConfig =
     (case (sourceElement, targetElement) of
        (Some src, Some tgt) \<Rightarrow>
          (let config = mergeConfig DEFAULT_CONFIG userConfig;
               current = (prop_x src, prop_y src)
           in case targetXY config src tgt of
                Inl e \<Rightarrow> (Inl e, s)
              | Inr target \<Rightarrow>
                  (case onStart config of
                     None \<Rightarrow> (Inl TypeError, s)
                   | Some start \<Rightarrow>
                       (let s1 = emit [Invoke start] s;
                            built = buildTimeline config current target;
                            s2 = emit (snd built) s1;
                            h = next_id s2
                        in (Inr (Some h),
                            s2\<lparr> timelines := (timelines s2)(h \<mapsto> fst built),
                                next_id := Suc h,
                                activeAnimations := activeAnimations s2 @ [h] \<rparr>))))
      | _ \<Rightarrow>
          (Inr None,
           emit [ConsoleWarn ''useFlyToTarget: source or target element is null''] s))"

subsection \<open>The registry\<close>

text \<open>
  \<open>tl.kill()\<close> on the timeline \<open>h\<close>: the call is recorded, and the timeline, if the
  engine has it, is killed.
\<close>

definition timeline_kill :: "nat \<Rightarrow> hook_state \<Rightarrow> hook_state" where
  "timeline_kill h s =
     emit [TimelineKill h]
       (case timelines s h of
          None \<Rightarrow> s
        | Some t \<Rightarrow> s\<lparr> timelines := (timelines s)(h \<mapsto> t\<lparr> tl_killed := True \<rparr>) \<rparr>)"

text \<open>\<open>killAll\<close>, lines 665-668.\<close>

definition killAll :: "hook_state \<Rightarrow> hook_state" where
  "killAll s =
     (foldl (\<lambda>st h. timeline_kill h st) s (activeAnimations s))\<lparr> activeAnimations := [] \<rparr>"

text \<open>\<open>kill\<close>, lines 673-678. The only test is \<open>if (timeline)\<close>.\<close>

definition kill :: "hook_state \<Rightarrow> nat option \<Rightarrow> hook_state" where
  "kill s timeline =
     (case timeline of
        None \<Rightarrow> s
      | Some h \<Rightarrow>
          (let s1 = timeline_kill h s
           in s1\<lparr> activeAnimations := filter (\<lambda>t. t \<noteq> h) (activeAnimations s1) \<rparr>))"

text \<open>
  The engine reports that the timeline \<open>h\<close> has played to its end: it does so once, for
  a timeline that has neither completed nor been killed, and calls the \<open>onComplete\<close> that
  line 561 gave it, which is the caller's, unless that is \<open>undefined\<close>. The hook installs
  nothing else there.
\<close>

definition complete :: "nat \<Rightarrow> hook_state \<Rightarrow> hook_state" where
  "complete h s =
     (case timelines s h of
        None \<Rightarrow> s
      | Some t \<Rightarrow>
          if tl_completed t \<or> tl_killed t then s
          else emit (case tl_onComplete t of None \<Rightarrow> [] | Some cb \<Rightarrow> [Invoke cb])
                 (s\<lparr> timelines := (timelines s)(h \<mapsto> t\<lparr> tl_completed := True \<rparr>) \<rparr>))"

text \<open>Sequences of calls on one hook instance, with the engine's completions between them.\<close>

datatype op =
  FlyToTarget "Element option" "Element option" FlyToTargetConfig
  | Kill "nat option"
  | KillAll
  | Complete nat

fun step :: "hook_state \<Rightarrow> op \<Rightarrow> hook_state" where
  "step s (FlyToTarget src tgt u) = snd (flyToTarget s src tgt u)"
| "step s (Kill h) = kill s h"
| "step s KillAll = killAll s"
| "step s (Complete h) = complete h s"

definition run :: "op list \<Rightarrow> hook_state" where
  "run ops = foldl step init_state ops"

subsection \<open>Observations\<close>

text \<open>The children of a built timeline, by the order in which lines 603, 627 and 646 add them.\<close>

definition motionTween :: "Timeline \<Rightarrow> Tween option" where
  "motionTween t = (case tl_children t of m # _ \<Rightarrow> Some m | _ \<Rightarrow> None)"

definition scaleUpTween :: "Timeline \<Rightarrow> Tween option" where
  "scaleUpTween t = (case tl_children t of _ # u # _ \<Rightarrow> Some u | _ \<Rightarrow> None)"

definition scaleDownTween :: "Timeline \<Rightarrow> Tween option" where
  "scaleDownTween t = (case tl_children t of _ # _ # d # _ \<Rightarrow> Some d | _ \<Rightarrow> None)"

text \<open>A timeline that has started and has neither completed nor been killed.\<close>

definition running :: "hook_state \<Rightarrow> nat \<Rightarrow> bool" where
  "running s h =
     (case timelines s h of None \<Rightarrow> False | Some t \<Rightarrow> \<not> tl_completed t \<and> \<not> tl_killed t)"

text \<open>A timeline that has started and has not been killed.\<close>

definition notKilled :: "hook_state \<Rightarrow> nat \<Rightarrow> bool" where
  "notKilled s h = (case timelines s h of None \<Rightarrow> False | Some t \<Rightarrow> \<not> tl_killed t)"

text \<open>How often \<open>kill()\<close> has been called on the timeline \<open>h\<close>.\<close>

definition killCount :: "hook_state \<Rightarrow> nat \<Rightarrow> nat" where
  "killCount s h = length (filter (\<lambda>e. e = TimelineKill h) (events s))"

text \<open>The timeline \<open>h\<close> of a state, and one of its children.\<close>

definition tweenOf :: "(Timeline \<Rightarrow> Tween option) \<Rightarrow> hook_state \<Rightarrow> nat \<Rightarrow> Tween option" where
  "tweenOf sel s h = Option.bind (timelines s h) sel"

definition motionOf :: "hook_state \<Rightarrow> nat \<Rightarrow> Motion option" where
  "motionOf s h = Option.bind (tweenOf motionTween s h) (\<lambda>tw. tv_motion (tw_vars tw))"

text \<open>The blur of the \<open>boxShadow\<close> a tween animates to, and the blurs set immediately.\<close>

definition tweenBlur :: "Tween \<Rightarrow> real option" where
  "tweenBlur tw = map_option blur (tv_boxShadow (tw_vars tw))"

fun setBlurs :: "event list \<Rightarrow> real list" where
  "setBlurs [] = []"
| "setBlurs (GsapSetBoxShadow b # es) = blur b # setBlurs es"
| "setBlurs (e # es) = setBlurs es"

subsection \<open>The control point in the specification's words\<close>

text \<open>
  \<open>mid = (start + end) / 2\<close>, \<open>perp = (-(end.y - start.y), end.x - start.x)\<close>,
  \<open>normalized = perp / |perp|\<close>, \<open>control = mid + normalized * swoopAmount\<close>, over the
  reals, where division by zero has no special value.
\<close>

definition midpoint :: "real \<times> real \<Rightarrow> real \<times> real \<Rightarrow> real \<times> real" where
  "midpoint start finish = ((fst start + fst finish) / 2, (snd start + snd finish) / 2)"

definition spec_controlPoint :: "real \<times> real \<Rightarrow> real \<times> real \<Rightarrow> real \<Rightarrow> real \<times> real" where
  "spec_controlPoint start finish swoop =
     (let mid = midpoint start finish;
          perp = (- (snd finish - snd start), fst finish - fst start);
          norm = sqrt ((fst perp)\<^sup>2 + (snd perp)\<^sup>2);
          normalized = (fst perp / norm, snd perp / norm)
      in (fst mid + fst normalized * swoop, snd mid + snd normalized * swoop))"

text \<open>
  The same five steps with every operation a double-precision one, and with step 3's
  degenerate case: \<open>null\<close> when the length is 0.
\<close>

definition vec_add :: "jsnum \<times> jsnum \<Rightarrow> jsnum \<times> jsnum \<Rightarrow> jsnum \<times> jsnum" where
  "vec_add a b = (js_add (fst a) (fst b), js_add (snd a) (snd b))"

definition vec_sub :: "jsnum \<times> jsnum \<Rightarrow> jsnum \<times> jsnum \<Rightarrow> jsnum \<times> jsnum" where
  "vec_sub a b = (js_sub (fst a) (fst b), js_sub (snd a) (snd b))"

definition vec_scale :: "jsnum \<times> jsnum \<Rightarrow> jsnum \<Rightarrow> jsnum \<times> jsnum" where
  "vec_scale a k = (js_mul (fst a) k, js_mul (snd a) k)"

definition vec_div :: "jsnum \<times> jsnum \<Rightarrow> jsnum \<Rightarrow> jsnum \<times> jsnum" where
  "vec_div a k = (js_div (fst a) k, js_div (snd a) k)"

definition vec_norm :: "jsnum \<times> jsnum \<Rightarrow> jsnum" where
  "vec_norm a = js_sqrt (js_add (js_mul (fst a) (fst a)) (js_mul (snd a) (snd a)))"

definition computeControlPoint ::
  "real \<times> real \<Rightarrow> real \<times> real \<Rightarrow> jsnum \<Rightarrow> (jsnum \<times> jsnum) option" where
  "computeControlPoint start finish swoop =
     (let s = (Num (fst start), Num (snd start));
          e = (Num (fst finish), Num (snd finish));
          mid = vec_div (vec_add s e) (Num 2);
          d = vec_sub e s;
          perp = (js_neg (snd d), fst d);
          len = vec_norm perp
      in if len = Num 0 then None
         else (let normalized = vec_div perp len
               in Some (vec_add mid (vec_scale normalized swoop))))"

text \<open>
  The computation of lines 572-586 at which no operation rounds: every sum, difference,
  product, quotient and square root it takes is a double as it stands.
\<close>

definition exact_ops :: "real \<times> real \<Rightarrow> real \<times> real \<Rightarrow> real \<Rightarrow> bool" where
  "exact_ops start finish swoop =
     (let dx = fst finish - fst start;
          dy = snd finish - snd start;
          len = sqrt ((- dy) * (- dy) + dx * dx)
      in fl (fst start + fst finish) = Num (fst start + fst finish)
         \<and> fl ((fst start + fst finish) / 2) = Num ((fst start + fst finish) / 2)
         \<and> fl (snd start + snd finish) = Num (snd start + snd finish)
         \<and> fl ((snd start + snd finish) / 2) = Num ((snd start + snd finish) / 2)
         \<and> fl (fst finish + - fst start) = Num dx
         \<and> fl (snd finish + - snd start) = Num dy
         \<and> fl ((- dy) * (- dy)) = Num ((- dy) * (- dy))
         \<and> fl (dx * dx) = Num (dx * dx)
         \<and> fl ((- dy) * (- dy) + dx * dx) = Num ((- dy) * (- dy) + dx * dx)
         \<and> fl len = Num len
         \<and> fl (- dy / len) = Num (- dy / len)
         \<and> fl (dx / len) = Num (dx / len)
         \<and> fl (- dy / len * swoop) = Num (- dy / len * swoop)
         \<and> fl (dx / len * swoop) = Num (dx / len * swoop)
         \<and> fl ((fst start + fst finish) / 2 + - dy / len * swoop)
             = Num ((fst start + fst finish) / 2 + - dy / len * swoop)
         \<and> fl ((snd start + snd finish) / 2 + dx / len * swoop)
             = Num ((snd start + snd finish) / 2 + dx / len * swoop))"


subsection \<open>The anchor point in the specification's words\<close>

text \<open>
  One of nine named positions on a rectangle, the centre, the four corners and the four
  edge midpoints, as the fractions of the width and of the height at which it lies, and
  then the pixel offset.
\<close>

fun across :: "PositionType \<Rightarrow> real" where
  "across topLeft = 0"
| "across leftCenter = 0"
| "across bottomLeft = 0"
| "across topCenter = 1 / 2"
| "across center = 1 / 2"
| "across bottomCenter = 1 / 2"
| "across topRight = 1"
| "across rightCenter = 1"
| "across bottomRight = 1"

fun down :: "PositionType \<Rightarrow> real" where
  "down topLeft = 0"
| "down topCenter = 0"
| "down topRight = 0"
| "down leftCenter = 1 / 2"
| "down center = 1 / 2"
| "down rightCenter = 1 / 2"
| "down bottomLeft = 1"
| "down bottomCenter = 1"
| "down bottomRight = 1"

definition anchorPoint :: "Rect \<Rightarrow> PositionType \<Rightarrow> real \<times> real \<Rightarrow> real \<times> real" where
  "anchorPoint r anchor offset =
     (rect_left r + across anchor * rect_width r + fst offset,
      rect_top r + down anchor * rect_height r + snd offset)"

subsection \<open>Concrete inputs\<close>

definition element :: "real \<Rightarrow> real \<Rightarrow> real \<Rightarrow> real \<Rightarrow> real \<Rightarrow> real \<Rightarrow> Element" where
  "element l t w h x y =
     \<lparr> boundingClientRect = \<lparr> rect_left = l, rect_top = t, rect_width = w, rect_height = h \<rparr>,
       prop_x = x, prop_y = y \<rparr>"


definition tiny :: real where
  "tiny = 2 powi (- 600)"

text \<open>A 20 by 20 dart whose centre is at (100, 100) and a 40 by 40 target centred at (300, 100).\<close>

definition dart :: Element where
  "dart = element 90 90 20 20 100 100"

definition bullseye :: Element where
  "bullseye = element 280 80 40 40 0 0"



text \<open>An element that already sits centre on centre on \<open>bullseye\<close>.\<close>

definition landed :: Element where
  "landed = element 290 90 20 20 200 0"

section \<open>Properties\<close>

subsection \<open>Rounding\<close>

lemma rne_of_int: "rne (of_int n) = n"
  by (simp add: rne_def)

lemma fl_0: "fl 0 = Num 0"
  by (simp add: fl_def)

lemma floor_log2_less:
  assumes "0 < x" and "x < 2 powi k"
  shows "\<lfloor>log 2 x\<rfloor> < k"
proof -
  have "x < 2 powr (of_int k)"
    using assms by (simp add: powr_real_of_int')
  then have "log 2 x < of_int k"
    using assms by (simp add: log_less_iff)
  then show ?thesis
    by linarith
qed

text \<open>A number with a 53-bit significand and an exponent in range rounds to itself, or overflows.\<close>

lemma fl_dyadic:
  assumes x: "x = of_int m * 2 powi e" and m: "\<bar>m\<bar> < 2 ^ 53" and e: "- 1074 \<le> e"
  shows "fl x = (if 2 ^ 1024 \<le> \<bar>x\<bar> then (if 0 < x then PosInf else NegInf) else Num x)"
proof (cases "x = 0")
  case True
  then show ?thesis by (simp add: fl_def)
next
  case False
  define k where "k = expo x - 52"
  have pos: "0 < \<bar>x\<bar>"
    using False by simp
  have "\<bar>x\<bar> = of_int \<bar>m\<bar> * 2 powi e"
    by (simp add: x abs_mult)
  also have "\<dots> < 2 ^ 53 * 2 powi e"
    using m by (intro mult_strict_right_mono) (auto simp flip: of_int_less_iff)
  also have "\<dots> = 2 powi (53 + e)"
    by (simp add: power_int_add)
  finally have "\<lfloor>log 2 \<bar>x\<bar>\<rfloor> < 53 + e"
    using pos floor_log2_less by blast
  then have ke: "k \<le> e"
    using e by (simp add: k_def expo_def)
  have u: "ulp x = 2 powi k"
    by (simp add: ulp_def k_def)
  have "x / 2 powi k = of_int m * 2 powi (e - k)"
    by (simp add: x power_int_diff)
  also have "\<dots> = of_int (m * 2 ^ nat (e - k))"
    using ke by (simp add: power_int_nonneg_exp)
  finally have q: "x / 2 powi k = of_int (m * 2 ^ nat (e - k))" .
  have "2 powi k * of_int (rne (x / 2 powi k)) = 2 powi k * (x / 2 powi k)"
    unfolding q rne_of_int ..
  also have "\<dots> = x"
    by simp
  finally have "ulp x * of_int (rne (x / ulp x)) = x"
    by (simp add: u)
  then show ?thesis
    using False by (simp add: fl_def Let_def)
qed

lemma fl_int:
  assumes "\<bar>n\<bar> < 2 ^ 53"
  shows "fl (of_int n) = Num (of_int n)"
proof -
  have "\<bar>real_of_int n\<bar> < 2 ^ 53"
    using assms by (metis of_int_abs of_int_less_iff of_int_numeral of_int_power)
  also have "\<dots> \<le> (2 :: real) ^ 1024"
    by simp
  finally have "\<not> 2 ^ 1024 \<le> \<bar>real_of_int n\<bar>"
    by simp
  then show ?thesis
    using fl_dyadic [of "of_int n" n 0] assms by simp
qed

lemma fl_underflow:
  assumes "0 < x" and "x < 2 powi (- 1075)"
  shows "fl x = Num 0"
proof -
  have "x < 2 powi (- 1022)"
    using assms(2) by (rule less_le_trans) (simp add: power_int_increasing)
  then have "\<lfloor>log 2 \<bar>x\<bar>\<rfloor> < - 1022"
    using assms floor_log2_less [of x "- 1022"] by simp
  then have u: "ulp x = 2 powi (- 1074)"
    by (simp add: ulp_def expo_def)
  have "x / 2 powi (- 1074) < 2 powi (- 1075) / 2 powi (- 1074)"
    using assms by (simp add: divide_strict_right_mono)
  also have "\<dots> = 1 / 2"
    by (simp add: power_int_diff [symmetric])
  finally have lt: "x / 2 powi (- 1074) < 1 / 2" .
  have ge: "0 \<le> x / 2 powi (- 1074)"
    using assms by simp
  have "\<lfloor>x / 2 powi (- 1074)\<rfloor> = 0"
    using lt ge by (simp add: floor_eq_iff)
  then have "rne (x / 2 powi (- 1074)) = 0"
    using lt by (simp add: rne_def)
  then show ?thesis
    using assms by (simp add: fl_def u)
qed

lemma floor_log2_eq:
  assumes "0 < x" and "2 powi k \<le> x" and "x < 2 powi (k + 1)"
  shows "\<lfloor>log 2 x\<rfloor> = k"
proof -
  have "2 powr (of_int k) \<le> x"
    using assms by (simp add: powr_real_of_int')
  then have "of_int k \<le> log 2 x"
    using assms by (simp add: le_log_iff)
  then have "k \<le> \<lfloor>log 2 x\<rfloor>"
    by (simp add: le_floor_iff)
  moreover have "\<lfloor>log 2 x\<rfloor> < k + 1"
    using assms(1,3) by (rule floor_log2_less)
  ultimately show ?thesis
    by simp
qed

text \<open>
  Two operations that round: the double written \<open>0.1\<close> is not one tenth, and
  \<open>1 + 2^-53\<close>, half way between two doubles, goes to the even one.
\<close>

lemma fl_tenth: "fl (1 / 10) = Num (3602879701896397 / 2 ^ 55)"
proof -
  have "\<lfloor>log 2 (1 / 10 :: real)\<rfloor> = - 4"
    by (rule floor_log2_eq) simp_all
  then have u: "ulp (1 / 10) = 2 powi (- 56)"
    by (simp add: ulp_def expo_def)
  have r: "rne (1 / 10 / 2 powi (- 56)) = 7205759403792794"
    by (simp add: rne_def Let_def)
  show ?thesis
    unfolding fl_def u r Let_def by simp
qed

lemma fl_tie: "fl (1 + 2 powi (- 53)) = Num 1"
proof -
  have "\<lfloor>log 2 (1 + 2 powi (- 53) :: real)\<rfloor> = 0"
    by (rule floor_log2_eq) simp_all
  then have u: "ulp (1 + 2 powi (- 53)) = 2 powi (- 52)"
    by (simp add: ulp_def expo_def)
  have r: "rne ((1 + 2 powi (- 53)) / 2 powi (- 52)) = 2 ^ 52"
    by (simp add: rne_def Let_def)
  show ?thesis
    unfolding fl_def u r Let_def by simp
qed

lemma js_add_NaN_right: "js_add a NaN = NaN"
  by (cases a) simp_all

subsection \<open>The control point\<close>

lemma js_mul_NaN_right: "js_mul a NaN = NaN"
  by (cases a) simp_all

text \<open>With a \<open>swoopAmount\<close> that is \<open>undefined\<close> both products are \<open>NaN\<close>, whatever the points.\<close>

lemma controlPoint_undefined_swoop: "controlPoint start finish (toNumber None) = (NaN, NaN)"
  by (simp add: controlPoint_def toNumber_def js_mul_NaN_right js_add_NaN_right Let_def)

lemma controlPoint_same: "controlPoint p p swoop = (NaN, NaN)"
  by (simp add: controlPoint_def js_sub_def fl_0 js_add_NaN_right Let_def)

lemma controlPoint_exact:
  assumes "start \<noteq> finish" and "exact_ops start finish swoop"
  shows "controlPoint start finish (Num swoop) =
     (Num (fst (spec_controlPoint start finish swoop)),
      Num (snd (spec_controlPoint start finish swoop)))"
proof -
  define dx where "dx = fst finish - fst start"
  define dy where "dy = snd finish - snd start"
  define len where "len = sqrt ((- dy) * (- dy) + dx * dx)"
  have d: "dy \<noteq> 0 \<or> dx \<noteq> 0"
    using assms(1) by (auto simp: prod_eq_iff dx_def dy_def)
  have sq: "(- dy) * (- dy) + dx * dx = (- dy)\<^sup>2 + dx\<^sup>2"
    by (simp add: power2_eq_square)
  have nz: "len \<noteq> 0"
    using d by (auto simp: len_def sq)
  have nn: "\<not> (- dy) * (- dy) + dx * dx < 0"
    by (simp add: sq not_less)
  note e = assms(2) [unfolded exact_ops_def Let_def, folded dx_def dy_def, folded len_def]
  have e1: "fl (fst start + fst finish) = Num (fst start + fst finish)"
    and e2: "fl ((fst start + fst finish) / 2) = Num ((fst start + fst finish) / 2)"
    and e3: "fl (snd start + snd finish) = Num (snd start + snd finish)"
    and e4: "fl ((snd start + snd finish) / 2) = Num ((snd start + snd finish) / 2)"
    and e5: "fl (fst finish + - fst start) = Num dx"
    and e6: "fl (snd finish + - snd start) = Num dy"
    and e7: "fl ((- dy) * (- dy)) = Num ((- dy) * (- dy))"
    and e8: "fl (dx * dx) = Num (dx * dx)"
    and e9: "fl ((- dy) * (- dy) + dx * dx) = Num ((- dy) * (- dy) + dx * dx)"
    and e10: "fl len = Num len"
    and e11: "fl (- dy / len) = Num (- dy / len)"
    and e12: "fl (dx / len) = Num (dx / len)"
    and e13: "fl (- dy / len * swoop) = Num (- dy / len * swoop)"
    and e14: "fl (dx / len * swoop) = Num (dx / len * swoop)"
    and e15: "fl ((fst start + fst finish) / 2 + - dy / len * swoop)
             = Num ((fst start + fst finish) / 2 + - dy / len * swoop)"
    and e16: "fl ((snd start + snd finish) / 2 + dx / len * swoop)
             = Num ((snd start + snd finish) / 2 + dx / len * swoop)"
    using e by blast+
  have midX: "js_div (js_add (Num (fst start)) (Num (fst finish))) (Num 2)
                = Num ((fst start + fst finish) / 2)"
    by (simp only: js_add.simps js_div.simps e1 e2) simp
  have midY: "js_div (js_add (Num (snd start)) (Num (snd finish))) (Num 2)
                = Num ((snd start + snd finish) / 2)"
    by (simp only: js_add.simps js_div.simps e3 e4) simp
  have jdx: "js_sub (Num (fst finish)) (Num (fst start)) = Num dx"
    by (simp only: js_sub_def js_neg.simps js_add.simps e5)
  have jdy: "js_sub (Num (snd finish)) (Num (snd start)) = Num dy"
    by (simp only: js_sub_def js_neg.simps js_add.simps e6)
  have jlen: "js_sqrt (js_add (js_mul (Num (- dy)) (Num (- dy))) (js_mul (Num dx) (Num dx)))
                = Num len"
    using nn by (simp only: js_mul.simps js_add.simps js_sqrt.simps e7 e8 e9 if_False)
      (simp only: len_def [symmetric] e10)
  have nx: "js_div (Num (- dy)) (Num len) = Num (- dy / len)"
    using nz by (simp only: js_div.simps if_True e11 simp_thms)
  have ny: "js_div (Num dx) (Num len) = Num (dx / len)"
    using nz by (simp only: js_div.simps if_True e12 simp_thms)
  have cx: "js_add (Num ((fst start + fst finish) / 2)) (js_mul (Num (- dy / len)) (Num swoop))
              = Num ((fst start + fst finish) / 2 + - dy / len * swoop)"
    by (simp only: js_mul.simps js_add.simps e13 e15)
  have cy: "js_add (Num ((snd start + snd finish) / 2)) (js_mul (Num (dx / len)) (Num swoop))
              = Num ((snd start + snd finish) / 2 + dx / len * swoop)"
    by (simp only: js_mul.simps js_add.simps e14 e16)
  have "controlPoint start finish (Num swoop) =
     (Num ((fst start + fst finish) / 2 + - dy / len * swoop),
      Num ((snd start + snd finish) / 2 + dx / len * swoop))"
    by (simp only: controlPoint_def Let_def fst_conv snd_conv midX midY jdx jdy js_neg.simps
        jlen nx ny cx cy)
  also have "\<dots> = (Num (fst (spec_controlPoint start finish swoop)),
      Num (snd (spec_controlPoint start finish swoop)))"
    by (simp add: spec_controlPoint_def midpoint_def Let_def len_def dx_def dy_def power2_eq_square)
  finally show ?thesis .
qed


lemma controlPoint_refines:
  assumes "computeControlPoint start finish swoop = Some c"
  shows "controlPoint start finish swoop = c"
  using assms
  by (simp add: computeControlPoint_def controlPoint_def vec_add_def vec_sub_def vec_scale_def
      vec_div_def vec_norm_def Let_def split: if_splits)

lemma computeControlPoint_exact:
  assumes "start \<noteq> finish" and "exact_ops start finish swoop"
  shows "computeControlPoint start finish (Num swoop) =
     Some (Num (fst (spec_controlPoint start finish swoop)),
           Num (snd (spec_controlPoint start finish swoop)))"
proof -
  define dx where "dx = fst finish - fst start"
  define dy where "dy = snd finish - snd start"
  define len where "len = sqrt ((- dy) * (- dy) + dx * dx)"
  have d: "dy \<noteq> 0 \<or> dx \<noteq> 0"
    using assms(1) by (auto simp: prod_eq_iff dx_def dy_def)
  have sq: "(- dy) * (- dy) + dx * dx = (- dy)\<^sup>2 + dx\<^sup>2"
    by (simp add: power2_eq_square)
  have nz: "len \<noteq> 0"
    using d by (auto simp: len_def sq)
  have nn: "\<not> (- dy) * (- dy) + dx * dx < 0"
    by (simp add: sq not_less)
  note e = assms(2) [unfolded exact_ops_def Let_def, folded dx_def dy_def, folded len_def]
  have e5: "fl (fst finish + - fst start) = Num dx"
    and e6: "fl (snd finish + - snd start) = Num dy"
    and e7: "fl ((- dy) * (- dy)) = Num ((- dy) * (- dy))"
    and e8: "fl (dx * dx) = Num (dx * dx)"
    and e9: "fl ((- dy) * (- dy) + dx * dx) = Num ((- dy) * (- dy) + dx * dx)"
    and e10: "fl len = Num len"
    using e by blast+
  have jdx: "js_sub (Num (fst finish)) (Num (fst start)) = Num dx"
    by (simp only: js_sub_def js_neg.simps js_add.simps e5)
  have jdy: "js_sub (Num (snd finish)) (Num (snd start)) = Num dy"
    by (simp only: js_sub_def js_neg.simps js_add.simps e6)
  have jlen: "js_sqrt (js_add (js_mul (Num (- dy)) (Num (- dy))) (js_mul (Num dx) (Num dx)))
                = Num len"
    using nn by (simp only: js_mul.simps js_add.simps js_sqrt.simps e7 e8 e9 if_False)
      (simp only: len_def [symmetric] e10)
  have "vec_norm (js_neg (snd (vec_sub (Num (fst finish), Num (snd finish))
                                        (Num (fst start), Num (snd start)))),
                  fst (vec_sub (Num (fst finish), Num (snd finish))
                               (Num (fst start), Num (snd start)))) = Num len"
    by (simp only: vec_sub_def vec_norm_def fst_conv snd_conv jdx jdy js_neg.simps jlen)
  then have "computeControlPoint start finish (Num swoop)
               = Some (controlPoint start finish (Num swoop))"
    using nz
    by (simp add: computeControlPoint_def controlPoint_def vec_add_def vec_sub_def vec_scale_def
        vec_div_def vec_norm_def Let_def)
  then show ?thesis
    by (simp add: controlPoint_exact [OF assms])
qed

lemma fl_numeral:
  assumes "(numeral n :: int) < 2 ^ 53"
  shows "fl (numeral n) = Num (numeral n)" and "fl (- numeral n) = Num (- numeral n)"
  using fl_int [of "numeral n"] fl_int [of "- numeral n"] assms by simp_all

lemma fl_1: "fl 1 = Num 1"
  using fl_int [of 1] by simp

lemma sqrt_40000: "sqrt 40000 = 200"
  by (rule real_sqrt_unique) simp_all

lemma exact_ops_example: "exact_ops (100, 100) (300, 100) (- 50)"
  by (simp add: exact_ops_def Let_def sqrt_40000 fl_0 fl_1 fl_numeral)

lemma controlPoint_example: "controlPoint (100, 100) (300, 100) (Num (- 50)) = (Num 200, Num 50)"
proof -
  have "((100, 100) :: real \<times> real) \<noteq> (300, 100)"
    by simp
  then show ?thesis
    using controlPoint_exact [OF _ exact_ops_example]
    by (simp add: spec_controlPoint_def midpoint_def Let_def sqrt_40000)
qed


lemma fl_tiny:
  "fl tiny = Num tiny" "fl (tiny / 2) = Num (tiny / 2)" "fl (tiny * tiny) = Num 0"
proof -
  have h: "tiny < 2 ^ 1024" "0 < tiny"
    by (simp_all add: tiny_def)
  have a: "tiny = of_int 1 * 2 powi (- 600)"
    by (simp add: tiny_def)
  show "fl tiny = Num tiny"
    using fl_dyadic [OF a] h by simp
  have b: "tiny / 2 = of_int 1 * 2 powi (- 601)"
    by (simp add: tiny_def)
  show "fl (tiny / 2) = Num (tiny / 2)"
    using fl_dyadic [OF b] h by simp
  have "tiny * tiny = 2 powi (- 1200)"
    by (simp add: tiny_def)
  also have "\<dots> < 2 powi (- 1075)"
    by (simp add: power_int_strict_increasing)
  finally show "fl (tiny * tiny) = Num 0"
    using fl_underflow [of "tiny * tiny"] h by simp
qed


lemma controlPoint_underflow: "controlPoint (0, 0) (tiny, 0) (Num 50) = (NaN, PosInf)"
proof -
  have "0 < tiny"
    by (simp add: tiny_def)
  then show ?thesis
    by (simp add: controlPoint_def Let_def js_sub_def fl_0 fl_tiny)
qed




subsection \<open>The built timeline\<close>

lemma getTargetPoint_anchor:
  assumes "targetPositionOffset config = Some offset"
  shows "getTargetPoint config r position =
           Inr (anchorPoint r (case position of None \<Rightarrow> center | Some p \<Rightarrow> p) offset)"
proof (cases position)
  case None
  then show ?thesis
    using assms by (simp add: getTargetPoint_def anchorPoint_def Let_def)
next
  case (Some p)
  then show ?thesis
    using assms by (cases p) (simp_all add: getTargetPoint_def anchorPoint_def Let_def)
qed

lemma targetXY_anchor:
  assumes "targetPositionOffset config = Some offset"
  shows "targetXY config src tgt =
     Inr (prop_x src
            + (fst (anchorPoint (boundingClientRect tgt)
                      (case targetPosition config of None \<Rightarrow> center | Some p \<Rightarrow> p) offset)
               - (rect_left (boundingClientRect src) + rect_width (boundingClientRect src) / 2)),
          prop_y src
            + (snd (anchorPoint (boundingClientRect tgt)
                      (case targetPosition config of None \<Rightarrow> center | Some p \<Rightarrow> p) offset)
               - (rect_top (boundingClientRect src) + rect_height (boundingClientRect src) / 2)))"
  by (simp add: targetXY_def getTargetPoint_anchor [OF assms] sourceCenter_def Let_def)

lemma targetXY_undefined_offset:
  assumes "targetPositionOffset config = None"
  shows "targetXY config src tgt = Inl TypeError"
  using assms by (simp add: targetXY_def getTargetPoint_def Let_def)

lemma targetXY_center:
  assumes "targetPosition config = Some center" and "targetPositionOffset config = Some (0, 0)"
  shows "targetXY config src tgt = Inr (targetXY_centerToCenter src tgt)"
  using assms
  by (simp add: targetXY_def targetXY_centerToCenter_def getTargetPoint_def sourceCenter_def
      Let_def)

lemma flyToTarget_elements:
  assumes "targetXY (mergeConfig DEFAULT_CONFIG u) src tgt = Inr target"
    and "onStart (mergeConfig DEFAULT_CONFIG u) = Some start"
  shows "flyToTarget s (Some src) (Some tgt) u =
     (Inr (Some (next_id s)),
      s\<lparr> events := events s @ [Invoke start]
             @ snd (buildTimeline (mergeConfig DEFAULT_CONFIG u) (prop_x src, prop_y src) target),
         timelines := (timelines s)(next_id s \<mapsto>
             fst (buildTimeline (mergeConfig DEFAULT_CONFIG u) (prop_x src, prop_y src) target)),
         next_id := Suc (next_id s),
         activeAnimations := activeAnimations s @ [next_id s] \<rparr>)"
  using assms by (simp add: flyToTarget_def emit_def Let_def)

lemma flyToTarget_throws:
  assumes "targetPositionOffset (mergeConfig DEFAULT_CONFIG u) = None
           \<or> onStart (mergeConfig DEFAULT_CONFIG u) = None"
  shows "flyToTarget s (Some src) (Some tgt) u = (Inl TypeError, s)"
proof (cases "targetPositionOffset (mergeConfig DEFAULT_CONFIG u)")
  case None
  then show ?thesis
    by (simp add: flyToTarget_def Let_def targetXY_undefined_offset)
next
  case (Some offset)
  then have "onStart (mergeConfig DEFAULT_CONFIG u) = None"
    using assms by simp
  then show ?thesis
    by (simp add: flyToTarget_def Let_def targetXY_anchor [OF Some])
qed

lemma flyToTarget_null:
  assumes "src = None \<or> tgt = None"
  shows "flyToTarget s src tgt u =
           (Inr None, s\<lparr> events := events s @
                        [ConsoleWarn ''useFlyToTarget: source or target element is null''] \<rparr>)"
  using assms by (auto simp: flyToTarget_def emit_def split: option.splits)

lemma mergeConfig_empty: "mergeConfig DEFAULT_CONFIG emptyConfig = DEFAULT_CONFIG"
  by (simp add: mergeConfig_def emptyConfig_def spread_def spread_key_def truthy_def
      DEFAULT_CONFIG_def)

lemma flyToTarget_default:
  assumes "targetXY DEFAULT_CONFIG src tgt = Inr target"
  shows "flyToTarget s (Some src) (Some tgt) emptyConfig =
     (Inr (Some (next_id s)),
      s\<lparr> events := events s @ [Invoke NoOp]
             @ snd (buildTimeline DEFAULT_CONFIG (prop_x src, prop_y src) target),
         timelines := (timelines s)(next_id s \<mapsto>
             fst (buildTimeline DEFAULT_CONFIG (prop_x src, prop_y src) target)),
         next_id := Suc (next_id s),
         activeAnimations := activeAnimations s @ [next_id s] \<rparr>)"
proof -
  have "onStart (mergeConfig DEFAULT_CONFIG emptyConfig) = Some NoOp"
    by (simp add: mergeConfig_empty) (simp add: DEFAULT_CONFIG_def)
  then show ?thesis
    using flyToTarget_elements [of emptyConfig src tgt target NoOp s] assms
    by (simp add: mergeConfig_empty)
qed

lemma buildTimeline_scale:
  assumes "scale config"
  shows "buildTimeline config current target =
     (\<lparr> tl_onComplete = onComplete config,
        tl_children =
          [\<lparr> tw_vars = motionConfig config current target, tw_fromScale = None, tw_start = 0 \<rparr>,
           \<lparr> tw_vars = scaleConfig config, tw_fromScale = Some (grabScale config),
             tw_start = scaleStartDelay config \<rparr>,
           \<lparr> tw_vars = scaleDownConfig config, tw_fromScale = None,
             tw_start = scaleStartDelay config + scaleUpDuration config
                        + (scaleStartDelay config + scaleUpDuration config)
                        + scalePause config \<rparr>],
        tl_completed = False, tl_killed = False \<rparr>,
      if enableShadow config
      then [GsapSetBoxShadow (BoxShadow 0 2 (baseShadowBlur config * grabScale config) (3 / 10))]
      else [])"
  using assms
  by (simp add: buildTimeline_def Let_def tl_add_def gsap_timeline_def parsePosition_def
      endTime_def motionConfig_def scaleConfig_def scaleDownConfig_def)

lemma buildTimeline_noscale:
  assumes "\<not> scale config"
  shows "buildTimeline config current target =
     (\<lparr> tl_onComplete = onComplete config,
        tl_children =
          [\<lparr> tw_vars = motionConfig config current target, tw_fromScale = None, tw_start = 0 \<rparr>],
        tl_completed = False, tl_killed = False \<rparr>,
      [GsapSetScale (grabScale config)])"
  using assms
  by (simp add: buildTimeline_def Let_def tl_add_def gsap_timeline_def parsePosition_def
      motionConfig_def)

lemma motionTween_buildTimeline:
  "motionTween (fst (buildTimeline config current target)) =
     Some \<lparr> tw_vars = motionConfig config current target, tw_fromScale = None, tw_start = 0 \<rparr>"
  by (cases "scale config") (simp_all add: buildTimeline_scale buildTimeline_noscale motionTween_def)

lemma tweenOf_flyToTarget:
  assumes "targetXY (mergeConfig DEFAULT_CONFIG u) src tgt = Inr target"
    and "onStart (mergeConfig DEFAULT_CONFIG u) = Some start"
  shows "tweenOf sel (snd (flyToTarget s (Some src) (Some tgt) u)) (next_id s) =
     sel (fst (buildTimeline (mergeConfig DEFAULT_CONFIG u) (prop_x src, prop_y src) target))"
  by (simp add: flyToTarget_elements [OF assms] tweenOf_def)

lemma motionOf_flyToTarget:
  assumes "targetXY (mergeConfig DEFAULT_CONFIG u) src tgt = Inr target"
    and "onStart (mergeConfig DEFAULT_CONFIG u) = Some start"
  shows "motionOf (snd (flyToTarget s (Some src) (Some tgt) u)) (next_id s) =
     tv_motion (motionConfig (mergeConfig DEFAULT_CONFIG u) (prop_x src, prop_y src) target)"
  by (simp add: motionOf_def tweenOf_flyToTarget [OF assms] motionTween_buildTimeline)

lemma targetXY_dart: "targetXY DEFAULT_CONFIG dart bullseye = Inr (300, 100)"
  by (simp add: targetXY_def getTargetPoint_def sourceCenter_def DEFAULT_CONFIG_def dart_def
      bullseye_def element_def Let_def)

lemma targetXY_landed: "targetXY DEFAULT_CONFIG landed bullseye = Inr (200, 0)"
  by (simp add: targetXY_def getTargetPoint_def sourceCenter_def DEFAULT_CONFIG_def landed_def
      bullseye_def element_def Let_def)

lemma onStart_default: "onStart (mergeConfig DEFAULT_CONFIG emptyConfig) = Some NoOp"
  by (simp add: mergeConfig_empty) (simp add: DEFAULT_CONFIG_def)

subsection \<open>Claims about the control point\<close>

text \<open>
  Claim C1. The claim: for coinciding start and end points and a nonzero \<open>swoopAmount\<close>
  there is no control point, the motion is direct, and no \<open>NaN\<close> reaches the motion
  phase. The program has no such case: \<open>landed\<close> sits centre on centre on \<open>bullseye\<close>,
  so with the default options (\<open>swoopAmount = -100\<close>) the start and the end are both
  \<open>(200, 0)\<close>, \<open>length\<close> is 0, both divisions are \<open>0 / 0\<close>, and the motion handed to
  the timeline is a three-point path whose control point is \<open>(NaN, NaN)\<close>.
\<close>

theorem degenerate_control_point_is_NaN:
  "motionOf (snd (flyToTarget init_state (Some landed) (Some bullseye) emptyConfig)) 0
     = Some (MotionPath [(Num 200, Num 0), (NaN, NaN), (Num 200, Num 0)] 2 6)"
proof -
  have "next_id init_state = 0"
    by (simp add: init_state_def)
  moreover have "targetXY (mergeConfig DEFAULT_CONFIG emptyConfig) landed bullseye = Inr (200, 0)"
    by (simp add: mergeConfig_empty targetXY_landed)
  ultimately have "motionOf (snd (flyToTarget init_state (Some landed) (Some bullseye) emptyConfig)) 0
      = tv_motion (motionConfig DEFAULT_CONFIG (prop_x landed, prop_y landed) (200, 0))"
    using motionOf_flyToTarget [OF _ onStart_default, of landed bullseye "(200, 0)" init_state]
    by (simp add: mergeConfig_empty)
  also have "(prop_x landed, prop_y landed) = (200, 0)"
    by (simp add: landed_def element_def)
  also have "tv_motion (motionConfig DEFAULT_CONFIG (200, 0) (200, 0))
      = Some (MotionPath [(Num 200, Num 0), (NaN, NaN), (Num 200, Num 0)] 2 6)"
    by (simp add: motionConfig_def controlPoint_same DEFAULT_CONFIG_def)
  finally show ?thesis .
qed

text \<open>
  Claim C5, as amended. Whenever the specification's five steps, each operation being
  the double-precision one, give a control point (the computed length is not 0) and
  \<open>swoopAmount\<close> is not 0, the motion is the three-point path through that point. For
  distinct points at which no operation rounds, overflows or underflows, that point is
  the exact value of \<open>mid + normalized * swoopAmount\<close>; the control point computed for
  \<open>(100, 100)\<close>, \<open>(300, 100)\<close> and \<open>-50\<close> is \<open>(200, 50)\<close>.
\<close>

theorem control_point_formula:
  "(swoopAmount config \<noteq> Some 0
      \<and> computeControlPoint start finish (toNumber (swoopAmount config)) = Some c
     \<longrightarrow> tv_motion (motionConfig config start finish) =
           Some (MotionPath
                   [(Num (fst start), Num (snd start)), c, (Num (fst finish), Num (snd finish))]
                   2 6))
   \<and> (start \<noteq> finish \<and> exact_ops start finish swoop
     \<longrightarrow> computeControlPoint start finish (Num swoop) =
           Some (Num (fst (spec_controlPoint start finish swoop)),
                 Num (snd (spec_controlPoint start finish swoop))))
   \<and> controlPoint (100, 100) (300, 100) (Num (- 50)) = (Num 200, Num 50)"
  by (simp add: motionConfig_def controlPoint_refines computeControlPoint_exact
      controlPoint_example)

theorem control_point_formula_witness:
  "swoopAmount (DEFAULT_CONFIG\<lparr> swoopAmount := Some (- 50) \<rparr>) \<noteq> Some 0
   \<and> computeControlPoint (100, 100) (300, 100)
         (toNumber (swoopAmount (DEFAULT_CONFIG\<lparr> swoopAmount := Some (- 50) \<rparr>)))
       = Some (Num 200, Num 50)
   \<and> ((100, 100) :: real \<times> real) \<noteq> (300, 100)
   \<and> exact_ops (100, 100) (300, 100) (- 50)
   \<and> tv_motion (motionConfig (DEFAULT_CONFIG\<lparr> swoopAmount := Some (- 50) \<rparr>) (100, 100) (300, 100)) =
           Some (MotionPath [(Num 100, Num 100), (Num 200, Num 50), (Num 300, Num 100)] 2 6)"
proof -
  note t = control_point_formula [of "DEFAULT_CONFIG\<lparr> swoopAmount := Some (- 50) \<rparr>"
      "(100, 100)" "(300, 100)" "(Num 200, Num 50)" "- 50"]
  have "computeControlPoint (100, 100) (300, 100) (Num (- 50)) =
          Some (Num (fst (spec_controlPoint (100, 100) (300, 100) (- 50))),
                Num (snd (spec_controlPoint (100, 100) (300, 100) (- 50))))"
    using t exact_ops_example by simp
  then have c: "computeControlPoint (100, 100) (300, 100) (Num (- 50)) = Some (Num 200, Num 50)"
    by (simp add: spec_controlPoint_def midpoint_def Let_def sqrt_40000)
  have "tv_motion (motionConfig (DEFAULT_CONFIG\<lparr> swoopAmount := Some (- 50) \<rparr>) (100, 100) (300, 100)) =
           Some (MotionPath [(Num 100, Num 100), (Num 200, Num 50), (Num 300, Num 100)] 2 6)"
    using t c by (simp add: toNumber_def)
  then show ?thesis
    using c exact_ops_example by (simp add: toNumber_def)
qed

text \<open>
  Claim C5, as stated, fails: the points \<open>(0, 0)\<close> and \<open>(2^-600, 0)\<close> are distinct, but
  the square of their distance underflows to 0, so \<open>length\<close> is 0 and the control point
  handed to the timeline is \<open>(NaN, Infinity)\<close>, not the finite point of the formula.
\<close>

theorem control_point_underflow:
  "((0, 0) :: real \<times> real) \<noteq> (tiny, 0)
   \<and> tv_motion (motionConfig (DEFAULT_CONFIG\<lparr> swoopAmount := Some 50 \<rparr>) (0, 0) (tiny, 0)) =
       Some (MotionPath [(Num 0, Num 0), (NaN, PosInf), (Num tiny, Num 0)] 2 6)"
  by (simp add: motionConfig_def toNumber_def controlPoint_underflow) (simp add: tiny_def)




subsection \<open>Claims about the timeline\<close>

lemma scaleDown_start:
  assumes "scale config"
  shows "map_option tw_start (scaleDownTween (fst (buildTimeline config current target)))
           = Some (2 * (scaleStartDelay config + scaleUpDuration config) + scalePause config)"
  using assms by (simp add: buildTimeline_scale scaleDownTween_def)

lemma scaleDown_start_motionDuration:
  assumes "scale config"
  shows "map_option tw_start
           (scaleDownTween (fst (buildTimeline (config\<lparr> motionDuration := d \<rparr>) current target)))
         = map_option tw_start (scaleDownTween (fst (buildTimeline config current target)))"
  using assms by (simp add: scaleDown_start)

text \<open>
  Claim C3. The claim: the scale-down phase starts, in absolute time, at
  \<open>scaleStartDelay + scaleUpDuration + scalePause\<close>. Line 649 places the scale-down at
  \<open>`>${scaleStartDelay + scaleUpDuration}`\<close>, which counts from the end of the scale-up,
  the child added last, and that end is itself at \<open>scaleStartDelay + scaleUpDuration\<close>;
  the tween's \<open>delay\<close> of \<open>scalePause\<close> comes on top. With the default options the
  scale-down starts at 0.55 where the claim has 0.35. The start does not depend on
  \<open>motionDuration\<close> (lemma \<open>scaleDown_start_motionDuration\<close>).
\<close>

theorem scale_down_start_default:
  "map_option tw_start
     (tweenOf scaleDownTween
        (snd (flyToTarget init_state (Some dart) (Some bullseye) emptyConfig)) 0)
     = Some (55 / 100)
   \<and> scaleStartDelay DEFAULT_CONFIG + scaleUpDuration DEFAULT_CONFIG + scalePause DEFAULT_CONFIG
     = 35 / 100"
proof -
  have n: "next_id init_state = 0"
    by (simp add: init_state_def)
  have sc: "scale DEFAULT_CONFIG"
    by (simp add: DEFAULT_CONFIG_def)
  have "map_option tw_start
     (tweenOf scaleDownTween
        (snd (flyToTarget init_state (Some dart) (Some bullseye) emptyConfig)) 0)
     = Some (2 * (scaleStartDelay DEFAULT_CONFIG + scaleUpDuration DEFAULT_CONFIG)
             + scalePause DEFAULT_CONFIG)"
    using tweenOf_flyToTarget [OF _ onStart_default, of dart bullseye "(300, 100)" scaleDownTween
        init_state]
    by (simp add: n mergeConfig_empty targetXY_dart scaleDown_start [OF sc])
  then show ?thesis
    by (simp add: DEFAULT_CONFIG_def)
qed

text \<open>
  Claim C4. With \<open>scale\<close> and \<open>enableShadow\<close> both true, the blur set before playback
  is \<open>baseShadowBlur * grabScale\<close>, the scale-up animates the blur to
  \<open>baseShadowBlur * scalePeak * 0.5\<close> and the scale-down animates it to 0, whatever
  \<open>scaleTarget\<close> is; otherwise no blur is set and no child of the timeline has a shadow.
  With the defaults (4, 1.2, 2.5) the two values are 4.8 and 5.
\<close>

theorem shadow_track:
  "(scale config \<and> enableShadow config \<longrightarrow>
      setBlurs (snd (buildTimeline config current target))
        = [baseShadowBlur config * grabScale config]
      \<and> Option.bind (scaleUpTween (fst (buildTimeline config current target))) tweenBlur
        = Some (baseShadowBlur config * scalePeak config * (5 / 10))
      \<and> Option.bind (scaleDownTween (fst (buildTimeline config current target))) tweenBlur
        = Some 0)
   \<and> (\<not> (scale config \<and> enableShadow config) \<longrightarrow>
      setBlurs (snd (buildTimeline config current target)) = []
      \<and> (\<forall>tw \<in> set (tl_children (fst (buildTimeline config current target))).
            tweenBlur tw = None))
   \<and> setBlurs (snd (buildTimeline DEFAULT_CONFIG current target)) = [48 / 10]
   \<and> Option.bind (scaleUpTween (fst (buildTimeline DEFAULT_CONFIG current target))) tweenBlur
        = Some 5"
proof -
  have a: "scale config \<and> enableShadow config \<longrightarrow>
      setBlurs (snd (buildTimeline config current target))
        = [baseShadowBlur config * grabScale config]
      \<and> Option.bind (scaleUpTween (fst (buildTimeline config current target))) tweenBlur
        = Some (baseShadowBlur config * scalePeak config * (5 / 10))
      \<and> Option.bind (scaleDownTween (fst (buildTimeline config current target))) tweenBlur
        = Some 0"
    by (simp add: buildTimeline_scale scaleUpTween_def scaleDownTween_def tweenBlur_def
        scaleConfig_def scaleDownConfig_def)
  have b: "\<not> (scale config \<and> enableShadow config) \<longrightarrow>
      setBlurs (snd (buildTimeline config current target)) = []
      \<and> (\<forall>tw \<in> set (tl_children (fst (buildTimeline config current target))).
            tweenBlur tw = None)"
  proof (cases "scale config")
    case True
    then show ?thesis
      by (simp add: buildTimeline_scale tweenBlur_def motionConfig_def scaleConfig_def
          scaleDownConfig_def)
  next
    case False
    then show ?thesis
      by (simp add: buildTimeline_noscale tweenBlur_def motionConfig_def)
  qed
  have sc: "scale DEFAULT_CONFIG"
    by (simp add: DEFAULT_CONFIG_def)
  have c: "setBlurs (snd (buildTimeline DEFAULT_CONFIG current target)) = [48 / 10]"
    by (simp add: buildTimeline_scale [OF sc]) (simp add: DEFAULT_CONFIG_def)
  have d: "Option.bind (scaleUpTween (fst (buildTimeline DEFAULT_CONFIG current target))) tweenBlur
        = Some 5"
    by (simp add: buildTimeline_scale [OF sc] scaleUpTween_def tweenBlur_def scaleConfig_def)
       (simp add: DEFAULT_CONFIG_def)
  from a b c d show ?thesis by blast
qed

theorem shadow_track_witness:
  "scale DEFAULT_CONFIG \<and> enableShadow DEFAULT_CONFIG
   \<and> \<not> (scale (DEFAULT_CONFIG\<lparr> scale := False \<rparr>) \<and> enableShadow (DEFAULT_CONFIG\<lparr> scale := False \<rparr>))
   \<and> setBlurs (snd (buildTimeline DEFAULT_CONFIG (100, 100) (300, 100))) = [48 / 10]
   \<and> Option.bind (scaleDownTween (fst (buildTimeline DEFAULT_CONFIG (100, 100) (300, 100)))) tweenBlur
        = Some 0
   \<and> setBlurs (snd (buildTimeline (DEFAULT_CONFIG\<lparr> scale := False \<rparr>) (100, 100) (300, 100))) = []"
  using shadow_track [of DEFAULT_CONFIG "(100, 100)" "(300, 100)"]
    shadow_track [of "DEFAULT_CONFIG\<lparr> scale := False \<rparr>" "(100, 100)" "(300, 100)"]
  by (simp add: DEFAULT_CONFIG_def)




text \<open>
  Claim C7. When the source or the target element is \<open>null\<close>, \<open>flyToTarget\<close> returns
  \<open>null\<close> and its only effect is the \<open>console.warn\<close>: no callback is called, no
  timeline is created, and the array of active animations is unchanged.
\<close>

theorem missing_element_returns_null:
  assumes "sourceElement = None \<or> targetElement = None"
  shows "flyToTarget s sourceElement targetElement userConfig =
           (Inr None, s\<lparr> events := events s @
                        [ConsoleWarn ''useFlyToTarget: source or target element is null''] \<rparr>)"
  using assms by (auto simp: flyToTarget_def emit_def split: option.splits)

theorem missing_element_returns_null_witness:
  "((None :: Element option) = None \<or> Some bullseye = None)
   \<and> flyToTarget init_state None (Some bullseye) emptyConfig =
       (Inr None, init_state\<lparr> events :=
                [ConsoleWarn ''useFlyToTarget: source or target element is null''] \<rparr>)"
  using missing_element_returns_null [of None "Some bullseye" init_state emptyConfig]
  by (simp add: init_state_def)

subsection \<open>The registry\<close>

lemma timeline_kill_simps:
  "activeAnimations (timeline_kill h s) = activeAnimations s"
  "events (timeline_kill h s) = events s @ [TimelineKill h]"
  "next_id (timeline_kill h s) = next_id s"
  by (simp_all add: timeline_kill_def emit_def split: option.splits)

lemma notKilled_timeline_kill:
  "notKilled (timeline_kill h s) k \<longleftrightarrow> k \<noteq> h \<and> notKilled s k"
  by (auto simp: timeline_kill_def emit_def notKilled_def split: option.splits)

lemma foldl_kill_simps:
  "activeAnimations (foldl (\<lambda>st h. timeline_kill h st) s hs) = activeAnimations s"
  "events (foldl (\<lambda>st h. timeline_kill h st) s hs) = events s @ map TimelineKill hs"
  "next_id (foldl (\<lambda>st h. timeline_kill h st) s hs) = next_id s"
  by (induction hs arbitrary: s) (simp_all add: timeline_kill_simps)

lemma notKilled_foldl_kill:
  "notKilled (foldl (\<lambda>st h. timeline_kill h st) s hs) k \<longleftrightarrow> k \<notin> set hs \<and> notKilled s k"
  by (induction hs arbitrary: s) (auto simp: notKilled_timeline_kill)

lemma killAll_simps:
  "activeAnimations (killAll s) = []"
  "events (killAll s) = events s @ map TimelineKill (activeAnimations s)"
  by (simp_all add: killAll_def foldl_kill_simps)

lemma notKilled_killAll:
  "notKilled (killAll s) k \<longleftrightarrow> k \<notin> set (activeAnimations s) \<and> notKilled s k"
proof -
  have "notKilled (killAll s) k
          = notKilled (foldl (\<lambda>st h. timeline_kill h st) s (activeAnimations s)) k"
    by (simp add: killAll_def notKilled_def)
  then show ?thesis
    by (simp add: notKilled_foldl_kill)
qed

lemma kill_simps:
  "kill s None = s"
  "activeAnimations (kill s (Some h)) = filter (\<lambda>t. t \<noteq> h) (activeAnimations s)"
  "events (kill s (Some h)) = events s @ [TimelineKill h]"
  by (simp_all add: kill_def Let_def timeline_kill_simps)

lemma notKilled_kill:
  "notKilled (kill s (Some h)) k \<longleftrightarrow> k \<noteq> h \<and> notKilled s k"
proof -
  have "notKilled (kill s (Some h)) k = notKilled (timeline_kill h s) k"
    by (simp add: kill_def Let_def notKilled_def)
  then show ?thesis
    by (simp add: notKilled_timeline_kill)
qed

lemma complete_simps:
  "activeAnimations (complete h s) = activeAnimations s"
  "notKilled (complete h s) k = notKilled s k"
  "\<not> running (complete h s) h"
  by (auto simp: complete_def emit_def notKilled_def running_def split: option.splits)

lemma buildTimeline_not_killed: "\<not> tl_killed (fst (buildTimeline config current target))"
  by (cases "scale config") (simp_all add: buildTimeline_scale buildTimeline_noscale)

lemma flyToTarget_registry:
  assumes "\<forall>k. k \<in> set (activeAnimations s) \<longleftrightarrow> notKilled s k"
  shows "h \<in> set (activeAnimations (snd (flyToTarget s src tgt u)))
           \<longleftrightarrow> notKilled (snd (flyToTarget s src tgt u)) h"
proof (cases "src = None \<or> tgt = None")
  case True
  then show ?thesis
    using assms by (simp add: flyToTarget_null notKilled_def)
next
  case False
  then obtain a b where ab: "src = Some a" "tgt = Some b"
    by auto
  show ?thesis
  proof (cases "targetPositionOffset (mergeConfig DEFAULT_CONFIG u) = None
                \<or> onStart (mergeConfig DEFAULT_CONFIG u) = None")
    case True
    then show ?thesis
      using assms by (simp add: ab flyToTarget_throws)
  next
    case False
    then obtain offset start where
      os: "targetPositionOffset (mergeConfig DEFAULT_CONFIG u) = Some offset"
          "onStart (mergeConfig DEFAULT_CONFIG u) = Some start"
      by auto
    show ?thesis
      using assms
      by (auto simp: ab flyToTarget_elements [OF targetXY_anchor [OF os(1)] os(2)]
          notKilled_def buildTimeline_not_killed)
  qed
qed

lemma step_preserves:
  assumes "\<forall>k. k \<in> set (activeAnimations s) \<longleftrightarrow> notKilled s k"
  shows "h \<in> set (activeAnimations (step s x)) \<longleftrightarrow> notKilled (step s x) h"
proof (cases x)
  case (FlyToTarget src tgt u)
  then show ?thesis
    using flyToTarget_registry [OF assms] by simp
next
  case (Kill t)
  then show ?thesis
    using assms by (cases t) (auto simp: kill_simps notKilled_kill)
next
  case KillAll
  then show ?thesis
    using assms by (simp add: killAll_simps notKilled_killAll)
next
  case (Complete c)
  then show ?thesis
    using assms by (simp add: complete_simps)
qed

lemma run_invariant:
  "\<forall>h. h \<in> set (activeAnimations (run ops)) \<longleftrightarrow> notKilled (run ops) h"
proof (induction ops rule: rev_induct)
  case Nil
  then show ?case
    by (simp add: run_def init_state_def notKilled_def)
next
  case (snoc x xs)
  then show ?case
    using step_preserves [of "run xs"] by (simp add: run_def)
qed

subsection \<open>Claims about the registry\<close>

lemma run_snoc: "run (ops @ [x]) = step (run ops) x"
  by (simp add: run_def)

lemma run_fly: "run [FlyToTarget (Some dart) (Some bullseye) emptyConfig]
   = snd (flyToTarget init_state (Some dart) (Some bullseye) emptyConfig)"
  by (simp add: run_def)

lemma fly_first:
  "activeAnimations (run [FlyToTarget (Some dart) (Some bullseye) emptyConfig]) = [0]"
  "events (run [FlyToTarget (Some dart) (Some bullseye) emptyConfig])
     = [Invoke NoOp, GsapSetBoxShadow (BoxShadow 0 2 (48 / 10) (3 / 10))]"
  by (simp_all add: run_fly flyToTarget_default [OF targetXY_dart] buildTimeline_scale
      init_state_def DEFAULT_CONFIG_def)

text \<open>
  Claim C2, as amended. After every sequence of \<open>flyToTarget\<close>, \<open>kill\<close>, \<open>killAll\<close> and
  completions reported by the engine, a timeline is in \<open>activeAnimationsRef.current\<close> if
  and only if \<open>flyToTarget\<close> has started it and \<open>kill()\<close> has not been called on it;
  a completion leaves the array as it is.
\<close>

theorem live_set_is_started_and_not_killed:
  "(h \<in> set (activeAnimations (run ops)) \<longleftrightarrow> notKilled (run ops) h)
   \<and> activeAnimations (run (ops @ [Complete c])) = activeAnimations (run ops)"
  using run_invariant by (simp add: run_snoc complete_simps)

theorem live_set_is_started_and_not_killed_witness:
  "(0 \<in> set (activeAnimations
              (run [FlyToTarget (Some dart) (Some bullseye) emptyConfig]))
     \<longleftrightarrow> notKilled (run [FlyToTarget (Some dart) (Some bullseye) emptyConfig]) 0)
   \<and> activeAnimations (run ([FlyToTarget (Some dart) (Some bullseye) emptyConfig] @ [Complete 0]))
     = [0]"
  using live_set_is_started_and_not_killed
          [of 0 "[FlyToTarget (Some dart) (Some bullseye) emptyConfig]" 0]
  by (simp add: fly_first)

text \<open>
  Claim C2, as stated, fails: the hook gives the engine nothing but the caller's
  \<open>onComplete\<close>, so a timeline that has played to its end is still in the array, where
  the claim has only timelines that have neither completed nor been cancelled.
\<close>

theorem completed_handle_stays_live:
  "0 \<in> set (activeAnimations
              (run [FlyToTarget (Some dart) (Some bullseye) emptyConfig, Complete 0]))
   \<and> \<not> running (run [FlyToTarget (Some dart) (Some bullseye) emptyConfig, Complete 0]) 0"
proof -
  have "run [FlyToTarget (Some dart) (Some bullseye) emptyConfig, Complete 0]
      = complete 0 (run [FlyToTarget (Some dart) (Some bullseye) emptyConfig])"
    using run_snoc [of "[FlyToTarget (Some dart) (Some bullseye) emptyConfig]" "Complete 0"]
    by simp
  then show ?thesis
    by (simp add: complete_simps fly_first)
qed

text \<open>
  Claim C8, as amended. \<open>kill\<close> of \<open>null\<close> does nothing. \<open>kill\<close> of a timeline calls
  \<open>kill()\<close> on it once, whether or not it is in the array, and leaves the array without
  it; for a timeline that is not in the array, the array is unchanged.
\<close>

theorem kill_cancels_any_handle:
  "kill s None = s
   \<and> events (kill s (Some h)) = events s @ [TimelineKill h]
   \<and> activeAnimations (kill s (Some h)) = filter (\<lambda>t. t \<noteq> h) (activeAnimations s)
   \<and> h \<notin> set (activeAnimations (kill s (Some h)))
   \<and> (h \<notin> set (activeAnimations s) \<longrightarrow>
         activeAnimations (kill s (Some h)) = activeAnimations s)"
  by (auto simp: kill_simps filter_id_conv)

theorem kill_cancels_any_handle_witness:
  "7 \<notin> set (activeAnimations init_state)
   \<and> events (kill init_state (Some 7)) = [TimelineKill 7]
   \<and> activeAnimations (kill init_state (Some 7)) = []"
  using kill_cancels_any_handle [of init_state 7] by (simp add: init_state_def)

text \<open>
  Claim C8, as stated, fails: \<open>kill\<close> tests \<open>if (timeline)\<close>, not membership. A second
  \<open>kill\<close> of the same timeline, which is no longer in the array, calls \<open>kill()\<close> on it a
  second time.
\<close>

theorem kill_twice_cancels_twice:
  "0 \<notin> set (activeAnimations
              (run [FlyToTarget (Some dart) (Some bullseye) emptyConfig, Kill (Some 0)]))
   \<and> killCount (run [FlyToTarget (Some dart) (Some bullseye) emptyConfig, Kill (Some 0)]) 0 = 1
   \<and> killCount (kill (run [FlyToTarget (Some dart) (Some bullseye) emptyConfig, Kill (Some 0)])
                  (Some 0)) 0 = 2"
proof -
  have "run [FlyToTarget (Some dart) (Some bullseye) emptyConfig, Kill (Some 0)]
      = kill (run [FlyToTarget (Some dart) (Some bullseye) emptyConfig]) (Some 0)"
    using run_snoc [of "[FlyToTarget (Some dart) (Some bullseye) emptyConfig]" "Kill (Some 0)"]
    by simp
  then show ?thesis
    by (simp add: kill_simps fly_first killCount_def)
qed

text \<open>
  Claim C9, as amended. \<open>killAll\<close> calls \<open>kill()\<close> on every timeline of the array, in
  order, and leaves the array empty; on an empty array it changes nothing, so a second
  \<open>killAll\<close> changes nothing. A later \<open>kill\<close> of one of those timelines leaves the array
  empty and calls \<open>kill()\<close> on the timeline once more.
\<close>

theorem killAll_empties_registry:
  "events (killAll s) = events s @ map TimelineKill (activeAnimations s)
   \<and> activeAnimations (killAll s) = []
   \<and> (activeAnimations s = [] \<longrightarrow> killAll s = s)
   \<and> killAll (killAll s) = killAll s
   \<and> activeAnimations (kill (killAll s) (Some h)) = []
   \<and> events (kill (killAll s) (Some h)) = events (killAll s) @ [TimelineKill h]"
proof -
  have e: "killAll t = t" if "activeAnimations t = []" for t
    using that by (simp add: killAll_def)
  have "killAll (killAll s) = killAll s"
    by (rule e) (simp add: killAll_simps)
  then show ?thesis
    using e by (simp add: killAll_simps kill_simps)
qed

theorem killAll_empties_registry_witness:
  "activeAnimations init_state = []
   \<and> killAll init_state = init_state
   \<and> events (killAll (run [FlyToTarget (Some dart) (Some bullseye) emptyConfig]))
       = [Invoke NoOp, GsapSetBoxShadow (BoxShadow 0 2 (48 / 10) (3 / 10)), TimelineKill 0]"
  using killAll_empties_registry [of init_state 0]
    killAll_empties_registry [of "run [FlyToTarget (Some dart) (Some bullseye) emptyConfig]" 0]
  by (simp add: init_state_def fly_first)

text \<open>
  Claim C9, as stated, fails in its last part: after \<open>killAll\<close>, \<open>kill\<close> of a timeline
  that \<open>killAll\<close> has already killed is not a no-op, it calls \<open>kill()\<close> on it again.
\<close>

theorem kill_after_killAll_cancels_again:
  "killCount (run [FlyToTarget (Some dart) (Some bullseye) emptyConfig, KillAll]) 0 = 1
   \<and> killCount (run [FlyToTarget (Some dart) (Some bullseye) emptyConfig, KillAll, Kill (Some 0)]) 0
       = 2"
proof -
  have a: "run [FlyToTarget (Some dart) (Some bullseye) emptyConfig, KillAll]
      = killAll (run [FlyToTarget (Some dart) (Some bullseye) emptyConfig])"
    using run_snoc [of "[FlyToTarget (Some dart) (Some bullseye) emptyConfig]" KillAll]
    by simp
  have b: "run [FlyToTarget (Some dart) (Some bullseye) emptyConfig, KillAll, Kill (Some 0)]
      = kill (run [FlyToTarget (Some dart) (Some bullseye) emptyConfig, KillAll]) (Some 0)"
    using run_snoc [of "[FlyToTarget (Some dart) (Some bullseye) emptyConfig, KillAll]" "Kill (Some 0)"]
    by simp
  show ?thesis
    by (simp add: a b kill_simps killAll_simps fly_first killCount_def)
qed

end
